theory Spec2Isabelle
  imports Main "HOL-Library.Word"
begin

section \<open>Python strings and \<open>os.path\<close> on POSIX\<close>

text \<open>
  A Python \<open>str\<close> is modelled as a \<open>string\<close>, one \<open>char\<close> per code point below 256.
  \<open>os.path\<close> is \<open>posixpath\<close>: the separator is \<open>/\<close>, the extension separator \<open>.\<close>.
\<close>

definition sep :: char where
  "sep = CHR ''/''"

definition extsep :: char where
  "extsep = CHR ''.''"

definition lower_char :: "char \<Rightarrow> char" where
  \<comment> \<open>\<open>str.lower\<close> on one code point below 256: A..Z and the Latin-1 capitals move by 32.\<close>
  "lower_char c =
     (let n = (of_char c :: nat)
      in if (65 \<le> n \<and> n \<le> 90) \<or> (192 \<le> n \<and> n \<le> 222 \<and> n \<noteq> 215)
         then char_of (n + 32) else c)"

definition lower :: "string \<Rightarrow> string" where
  "lower s = map lower_char s"

definition lstrip_sep :: "string \<Rightarrow> string" where
  \<comment> \<open>\<open>s.lstrip(sep)\<close>\<close>
  "lstrip_sep s = dropWhile (\<lambda>c. c = sep) s"

definition rstrip_sep :: "string \<Rightarrow> string" where
  \<comment> \<open>\<open>s.rstrip(sep)\<close>\<close>
  "rstrip_sep s = rev (dropWhile (\<lambda>c. c = sep) (rev s))"

function replace :: "string \<Rightarrow> string \<Rightarrow> string \<Rightarrow> string" where
  \<comment> \<open>\<open>s.replace(old, new)\<close>: every non-overlapping occurrence, scanning from the left;
      an empty \<open>old\<close> matches before every character and at the end.\<close>
  "replace s old new =
     (if old = [] then new @ concat (map (\<lambda>c. c # new) s)
      else if s = [] then []
      else if take (length old) s = old then new @ replace (drop (length old) s) old new
      else hd s # replace (tl s) old new)"
  by pat_completeness auto
termination
  by (relation "measure (\<lambda>(s, old, new). length s)") (auto simp: neq_Nil_conv)

declare replace.simps [simp del]

fun rfind_from :: "char \<Rightarrow> string \<Rightarrow> int \<Rightarrow> int \<Rightarrow> int" where
  "rfind_from c [] i found = found"
| "rfind_from c (x # xs) i found = rfind_from c xs (i + 1) (if x = c then i else found)"

definition rfind :: "string \<Rightarrow> char \<Rightarrow> int" where
  \<comment> \<open>\<open>s.rfind(c)\<close>: the highest index of \<open>c\<close>, or -1.\<close>
  "rfind s c = rfind_from c s 0 (- 1)"

definition path_split :: "string \<Rightarrow> string \<times> string" where
  \<comment> \<open>\<open>posixpath.split\<close>\<close>
  "path_split p =
     (let i = nat (rfind p sep + 1);
          head = take i p;
          tail = drop i p
      in (if head \<noteq> [] \<and> head \<noteq> replicate (length head) sep then rstrip_sep head else head,
          tail))"

definition dirname :: "string \<Rightarrow> string" where
  "dirname p =
     (let i = nat (rfind p sep + 1);
          head = take i p
      in if head \<noteq> [] \<and> head \<noteq> replicate (length head) sep then rstrip_sep head else head)"

definition basename :: "string \<Rightarrow> string" where
  "basename p = (let i = nat (rfind p sep + 1) in drop i p)"

function splitext_scan :: "string \<Rightarrow> nat \<Rightarrow> nat \<Rightarrow> string \<times> string" where
  \<comment> \<open>the loop of \<open>genericpath._splitext\<close> that skips the leading dots of the name\<close>
  "splitext_scan p filenameIndex dotIndex =
     (if filenameIndex < dotIndex
      then (if take 1 (drop filenameIndex p) \<noteq> [extsep]
            then (take dotIndex p, drop dotIndex p)
            else splitext_scan p (filenameIndex + 1) dotIndex)
      else (p, []))"
  by pat_completeness auto
termination
  by (relation "measure (\<lambda>(p, filenameIndex, dotIndex). dotIndex - filenameIndex)") auto

declare splitext_scan.simps [simp del]

definition splitext :: "string \<Rightarrow> string \<times> string" where
  "splitext p =
     (let sepIndex = rfind p sep;
          dotIndex = rfind p extsep
      in if dotIndex > sepIndex
         then splitext_scan p (nat (sepIndex + 1)) (nat dotIndex)
         else (p, []))"

definition join :: "string \<Rightarrow> string \<Rightarrow> string" where
  \<comment> \<open>\<open>posixpath.join(a, b)\<close>\<close>
  "join a b =
     (if (b \<noteq> [] \<and> hd b = sep) \<or> a = [] then b
      else if last a = sep then a @ b
      else a @ [sep] @ b)"

section \<open>Exceptions\<close>

text \<open>
  Every exception class the modelled code can raise. \<open>ValueError\<close> stands for the class and
  its subclasses (what \<open>except ValueError\<close> catches); the four file errors are subclasses of
  \<open>OSError\<close>.
\<close>

datatype error =
    ValueError
  | UnboundLocalError
  | AttributeError
  | AssertionError
  | ImportError
  | FileExistsError
  | FileNotFoundError
  | NotADirectoryError
  | IsADirectoryError
  | OSError
  | OtherError string

section \<open>The files and the process state\<close>

type_synonym byte = "8 word"

type_synonym fspath = "string list"

datatype node = Dir | File "byte list"

text \<open>
  The process state: the module globals \<open>__IGNORED_EXTENSIONS\<close> and \<open>__LOADED\<close>, and the
  part of the operating system the handlers touch. The file system maps the component list
  of an absolute path to what is there (no symbolic links). \<open>tempdir\<close> is what
  \<open>tempfile.gettempdir()\<close> returns, \<open>names\<close> the candidate names that \<open>tempfile\<close>'s random
  name sequence will yield, in order. In \<open>__LOADED\<close> the value cached under a key is always the
  class that the import yields for that key, so the model keeps the set of keys.
\<close>

record world =
  IGNORED_EXTENSIONS :: "string list"
  LOADED :: "string set"
  fs :: "fspath \<rightharpoonup> node"
  cwd :: fspath
  tempdir :: string
  names :: "string list"

section \<open>Byte sources\<close>

text \<open>
  What a caller may pass as \<open>fileobj\<close>: a \<open>bytes\<close> value (falsy when empty, and without
  \<open>seek\<close> and \<open>read\<close>), an open file-like object with its truth value, its content and its
  position (an \<open>io.BytesIO\<close> is always true; a class that defines \<open>__len__\<close> or \<open>__bool__\<close>
  may be false), or an \<open>io.BytesIO\<close> that has been closed (true; \<open>seek\<close> and \<open>read\<close> raise
  \<open>ValueError\<close>, "I/O operation on closed file").
\<close>

datatype fileobj =
    RawBytes "byte list"
  | FileLike bool "byte list" nat
  | ClosedFile

definition truthy :: "fileobj \<Rightarrow> bool" where
  "truthy fo = (case fo of RawBytes b \<Rightarrow> b \<noteq> [] | FileLike t c p \<Rightarrow> t | ClosedFile \<Rightarrow> True)"

definition seek0 :: "fileobj \<Rightarrow> error + fileobj" where
  \<comment> \<open>\<open>fileobj.seek(0)\<close>\<close>
  "seek0 fo =
     (case fo of
        RawBytes b \<Rightarrow> Inl AttributeError
      | FileLike t c p \<Rightarrow> Inr (FileLike t c 0)
      | ClosedFile \<Rightarrow> Inl ValueError)"

definition read_all :: "fileobj \<Rightarrow> error + byte list \<times> fileobj" where
  \<comment> \<open>\<open>fileobj.read()\<close>: everything from the position to the end\<close>
  "read_all fo =
     (case fo of
        RawBytes b \<Rightarrow> Inl AttributeError
      | FileLike t c p \<Rightarrow> Inr (drop p c, FileLike t c (max p (length c)))
      | ClosedFile \<Rightarrow> Inl ValueError)"

section \<open>Module tables\<close>

definition required_checksums :: "string list" where
  "required_checksums = [''md5'', ''sha1'', ''sha256'', ''sha512'']"

definition MODULE_PREFIX :: string where
  "MODULE_PREFIX = ''jsnoop.handlers''"

definition DEFAULT_MODULE :: string where
  "DEFAULT_MODULE = ''simplefile''"

fun dict_set :: "'k \<Rightarrow> 'v \<Rightarrow> ('k \<times> 'v) list \<Rightarrow> ('k \<times> 'v) list" where
  \<comment> \<open>\<open>d[k] = v\<close> on an insertion-ordered dict\<close>
  "dict_set k v [] = [(k, v)]"
| "dict_set k v ((k', v') # d) = (if k = k' then (k', v) # d else (k', v') # dict_set k v d)"

definition dict_of :: "('k \<times> 'v) list \<Rightarrow> ('k \<times> 'v) list" where
  \<comment> \<open>a dict display \<open>{k1: v1, k2: v2, ...}\<close>\<close>
  "dict_of items = foldl (\<lambda>d (k, v). dict_set k v d) [] items"

definition CLASSES :: "(string \<times> string) list" where
  "CLASSES = dict_of
     [(''archivefile'', ''ArchiveFile''),
      (''javaclass'', ''ClassFile''),
      (''manifest'', ''ManifestFile''),
      (''signature'', ''SignatureFile''),
      (''simplefile'', ''SimpleFile'')]"

definition MODULES :: "(string \<times> string) list" where
  "MODULES = dict_of
     [(''.mf'', ''manifest''),
      (''.rsa'', ''signature''),
      (''.dsa'', ''signature''),
      (''.class'', ''javaclass''),
      (''.zip'', ''archivefile''),
      (''.gz'', ''archivefile''),
      (''.bz2'', ''archivefile''),
      (''.tar'', ''archivefile''),
      (''.jar'', ''archivefile''),
      (''.war'', ''archivefile''),
      (''.sar'', ''archivefile''),
      (''.war'', ''archivefile'')]"

definition get_known_extensions :: "string list" where
  "get_known_extensions = map fst MODULES"

section \<open>The ignore list\<close>

datatype ext_arg = Str string | StrList "string list"

definition aug_add_local :: "string list option \<Rightarrow> string list \<Rightarrow> error + string list" where
  \<comment> \<open>\<open>x += exts\<close> on a local variable \<open>x\<close>: the old value is read first, and reading a local
      that is not bound yet raises \<open>UnboundLocalError\<close>.\<close>
  "aug_add_local x exts = (case x of None \<Rightarrow> Inl UnboundLocalError | Some v \<Rightarrow> Inr (v @ exts))"

definition ignore_extensions :: "world \<Rightarrow> ext_arg \<Rightarrow> (error + unit) \<times> world" where
  \<comment> \<open>The function assigns to \<open>__IGNORED_EXTENSIONS\<close> and declares no \<open>global\<close>, so the name
      is a local of the function, unbound when \<open>+=\<close> reads it. The module's list is not
      touched.\<close>
  "ignore_extensions w arg =
     (let exts = (case arg of Str s \<Rightarrow> [s] | StrList l \<Rightarrow> l);
          exts = map lower exts;
          local_IGNORED_EXTENSIONS = (None :: string list option)
      in case aug_add_local local_IGNORED_EXTENSIONS exts of
           Inl e \<Rightarrow> (Inl e, w)
         | Inr v \<Rightarrow> (Inr (), w))"

definition unignore_extensions :: "world \<Rightarrow> ext_arg \<Rightarrow> (error + unit) \<times> world" where
  "unignore_extensions w arg =
     (let exts = (case arg of Str s \<Rightarrow> [s] | StrList l \<Rightarrow> l);
          exts = map lower exts
      in (Inr (),
          w\<lparr>IGNORED_EXTENSIONS :=
               foldl (\<lambda>ign ext. if ext \<in> set ign then remove1 ext ign else ign)
                 (IGNORED_EXTENSIONS w) exts\<rparr>))"

definition ignored_extensions :: "world \<Rightarrow> string list" where
  "ignored_extensions w = IGNORED_EXTENSIONS w"

definition is_ignored_extension :: "world \<Rightarrow> string \<Rightarrow> bool" where
  "is_ignored_extension w ext = (lower ext \<in> set (IGNORED_EXTENSIONS w))"

section \<open>Handler classes\<close>

definition handler_class :: "world \<Rightarrow> string \<Rightarrow> (error + string) \<times> world" where
  \<comment> \<open>\<open>__handler_class\<close>. A handler class is identified by its name. The import of a module
      of \<open>__CLASSES\<close> yields the class of that name; a module outside \<open>__CLASSES\<close> is not a
      module of the package and its import raises.\<close>
  "handler_class w module =
     (case map_of CLASSES module of
        None \<Rightarrow> (Inl ImportError, w)
      | Some klass \<Rightarrow>
          (let module' = MODULE_PREFIX @ ''.'' @ module;
               fqn = module' @ ''.'' @ klass;
               w' = (if fqn \<notin> LOADED w then w\<lparr>LOADED := insert fqn (LOADED w)\<rparr> else w)
           in (Inr klass, w')))"

definition handler_module :: "world \<Rightarrow> string \<Rightarrow> string" where
  \<comment> \<open>The \<open>try\<close> statement of \<open>get_handler\<close>. Its \<open>except\<close> branch is taken only when
      \<open>filename\<close> is not a \<open>str\<close>, and selects the default module too.\<close>
  "handler_module w filename =
     (let extension = lower (snd (splitext filename))
      in if is_ignored_extension w extension then DEFAULT_MODULE
         else (case map_of MODULES extension of
                 Some m \<Rightarrow> m
               | None \<Rightarrow> DEFAULT_MODULE))"

definition get_handler :: "world \<Rightarrow> string \<Rightarrow> (error + string) \<times> world" where
  "get_handler w filename = handler_class w (handler_module w filename)"

section \<open>Creating a handler object\<close>

record ctor_args =
  arg_filepath :: string
  arg_fileobj :: "fileobj option"
  arg_parent_path :: string
  arg_parent_sha512 :: "string option"

text \<open>
  The handler classes (\<open>ArchiveFile\<close>, \<open>ClassFile\<close>, \<open>ManifestFile\<close>, \<open>SignatureFile\<close>,
  \<open>SimpleFile\<close>) live in modules that are loaded by name at run time. What the constructor
  of the class named \<open>klass\<close> does is the parameter \<open>init\<close>: it returns the instance's
  contents or raises, and may change the process state either way. Calling a class yields an
  instance of that class.
\<close>

definition instantiate ::
  "(string \<Rightarrow> ctor_args \<Rightarrow> world \<Rightarrow> (error + 'obj) \<times> world) \<Rightarrow>
   string \<Rightarrow> ctor_args \<Rightarrow> world \<Rightarrow> (error + string \<times> 'obj) \<times> world" where
  "instantiate init klass a w =
     (case init klass a w of
        (Inl e, w') \<Rightarrow> (Inl e, w')
      | (Inr obj, w') \<Rightarrow> (Inr (klass, obj), w'))"

definition forced_archive ::
  "(string \<Rightarrow> ctor_args \<Rightarrow> world \<Rightarrow> (error + 'obj) \<times> world) \<Rightarrow>
   ctor_args \<Rightarrow> world \<Rightarrow> (error + string \<times> 'obj) \<times> world" where
  \<comment> \<open>the body of the \<open>try\<close> in \<open>get_handler_obj\<close>\<close>
  "forced_archive init a w =
     (case handler_class w ''archivefile'' of
        (Inl e, w1) \<Rightarrow> (Inl e, w1)
      | (Inr klass, w1) \<Rightarrow> instantiate init klass a w1)"

definition by_extension ::
  "(string \<Rightarrow> ctor_args \<Rightarrow> world \<Rightarrow> (error + 'obj) \<times> world) \<Rightarrow>
   ctor_args \<Rightarrow> world \<Rightarrow> (error + string \<times> 'obj) \<times> world" where
  \<comment> \<open>the body of the \<open>except ValueError\<close> in \<open>get_handler_obj\<close>\<close>
  "by_extension init a w =
     (case get_handler w (arg_filepath a) of
        (Inl e, w1) \<Rightarrow> (Inl e, w1)
      | (Inr klass, w1) \<Rightarrow> instantiate init klass a w1)"

definition get_handler_obj ::
  "(string \<Rightarrow> ctor_args \<Rightarrow> world \<Rightarrow> (error + 'obj) \<times> world) \<Rightarrow>
   ctor_args \<Rightarrow> world \<Rightarrow> (error + string \<times> 'obj) \<times> world" where
  "get_handler_obj init a w =
     (case forced_archive init a w of
        (Inl e, w') \<Rightarrow> (if e = ValueError then by_extension init a w' else (Inl e, w'))
      | (Inr handler, w') \<Rightarrow> (Inr handler, w'))"

section \<open>The operating system calls\<close>

fun split_on :: "char \<Rightarrow> string \<Rightarrow> string list" where
  \<comment> \<open>\<open>s.split(c)\<close>\<close>
  "split_on c [] = [[]]"
| "split_on c (x # xs) =
     (if x = c then [] # split_on c xs
      else (case split_on c xs of [] \<Rightarrow> [[x]] | y # ys \<Rightarrow> (x # y) # ys))"

fun walk :: "(fspath \<rightharpoonup> node) \<Rightarrow> fspath \<Rightarrow> string list \<Rightarrow> error + fspath" where
  \<comment> \<open>Path resolution, one component at a time: a component is looked up in a directory that
      exists; the empty component and \<open>.\<close> stay, \<open>..\<close> goes up (the root is its own
      parent). What the last component names need not exist.\<close>
  "walk f cur [] = Inr cur"
| "walk f cur (c # cs) =
     (case f cur of
        None \<Rightarrow> Inl FileNotFoundError
      | Some (File b) \<Rightarrow> Inl NotADirectoryError
      | Some Dir \<Rightarrow>
          (if c = [] \<or> c = ''.'' then walk f cur cs
           else if c = ''..'' then walk f (butlast cur) cs
           else walk f (cur @ [c]) cs))"

definition resolve :: "world \<Rightarrow> string \<Rightarrow> error + fspath" where
  \<comment> \<open>A path with a NUL character is refused by every call, with \<open>ValueError\<close>
      ("embedded null byte"), before the file system is looked at.\<close>
  "resolve w s =
     (if CHR 0x00 \<in> set s then Inl ValueError
      else if s = [] then Inl FileNotFoundError
      else walk (fs w) (if hd s = sep then [] else cwd w) (split_on sep s))"

definition exists :: "world \<Rightarrow> string \<Rightarrow> bool" where
  \<comment> \<open>\<open>os.path.exists\<close>: false when the path cannot be resolved, whatever the error\<close>
  "exists w s = (case resolve w s of Inl e \<Rightarrow> False | Inr p \<Rightarrow> fs w p \<noteq> None)"

definition isfile :: "world \<Rightarrow> string \<Rightarrow> bool" where
  \<comment> \<open>\<open>os.path.isfile\<close>\<close>
  "isfile w s =
     (case resolve w s of
        Inl e \<Rightarrow> False
      | Inr p \<Rightarrow> (case fs w p of Some (File b) \<Rightarrow> True | _ \<Rightarrow> False))"

definition mkdir :: "world \<Rightarrow> string \<Rightarrow> (error + unit) \<times> world" where
  \<comment> \<open>\<open>os.mkdir\<close>; trailing separators of the name are allowed\<close>
  "mkdir w s =
     (case resolve w (if rstrip_sep s = [] then s else rstrip_sep s) of
        Inl e \<Rightarrow> (Inl e, w)
      | Inr p \<Rightarrow>
          (if fs w p \<noteq> None then (Inl FileExistsError, w)
           else (Inr (), w\<lparr>fs := (fs w)(p \<mapsto> Dir)\<rparr>)))"

definition makedirs_head :: "string \<Rightarrow> string" where
  \<comment> \<open>\<open>head\<close> in \<open>os.makedirs\<close>, after \<open>if not tail: head, tail = path.split(head)\<close>\<close>
  "makedirs_head name =
     (if snd (path_split name) = [] then fst (path_split (fst (path_split name)))
      else fst (path_split name))"

definition makedirs_tail :: "string \<Rightarrow> string" where
  "makedirs_tail name =
     (if snd (path_split name) = [] then snd (path_split (fst (path_split name)))
      else snd (path_split name))"

lemma length_rstrip_sep: "length (rstrip_sep s) \<le> length s"
  unfolding rstrip_sep_def using length_dropWhile_le [of "\<lambda>c. c = sep" "rev s"] by simp

lemma length_fst_path_split: "length (fst (path_split p)) \<le> length p"
  using length_rstrip_sep [of "take (nat (rfind p sep + 1)) p"]
  by (auto simp: path_split_def Let_def)

lemma length_path_split_tail:
  "snd (path_split p) \<noteq> [] \<Longrightarrow> length (fst (path_split p)) < length p"
  using length_rstrip_sep [of "take (nat (rfind p sep + 1)) p"]
  by (auto simp: path_split_def Let_def min_def split: if_splits)

lemma length_makedirs_head:
  "makedirs_tail name \<noteq> [] \<Longrightarrow> length (makedirs_head name) < length name"
  using length_path_split_tail [of name] length_path_split_tail [of "fst (path_split name)"]
    length_fst_path_split [of name]
  by (auto simp: makedirs_head_def makedirs_tail_def split: if_splits)

function makedirs :: "world \<Rightarrow> string \<Rightarrow> (error + unit) \<times> world" where
  \<comment> \<open>\<open>os.makedirs(name)\<close> with \<open>exist_ok=False\<close>\<close>
  "makedirs w name =
     (if makedirs_head name \<noteq> [] \<and> makedirs_tail name \<noteq> [] \<and> \<not> exists w (makedirs_head name)
      then (case makedirs w (makedirs_head name) of
              (Inl e, w1) \<Rightarrow>
                (if e = FileExistsError
                 then (if makedirs_tail name = ''.'' then (Inr (), w1) else mkdir w1 name)
                 else (Inl e, w1))
            | (Inr u, w1) \<Rightarrow>
                (if makedirs_tail name = ''.'' then (Inr (), w1) else mkdir w1 name))
      else mkdir w name)"
  by pat_completeness auto
termination
  by (relation "measure (\<lambda>(w, name). length name)") (auto simp: length_makedirs_head)

declare makedirs.simps [simp del]

fun mkdtemp_try :: "world \<Rightarrow> string \<Rightarrow> string list \<Rightarrow> (error + string) \<times> world" where
  \<comment> \<open>the loop of \<open>tempfile.mkdtemp\<close> over the candidate names: a name that exists is
      skipped, any other failure of \<open>mkdir\<close> is raised\<close>
  "mkdtemp_try w prefix [] = (Inl FileExistsError, w\<lparr>names := []\<rparr>)"
| "mkdtemp_try w prefix (n # ns) =
     (let file = join (tempdir w) (prefix @ n)
      in case mkdir w file of
           (Inl e, w1) \<Rightarrow>
             (if e = FileExistsError then mkdtemp_try w1 prefix ns else (Inl e, w1\<lparr>names := ns\<rparr>))
         | (Inr u, w1) \<Rightarrow> (Inr file, w1\<lparr>names := ns\<rparr>))"

definition mkdtemp :: "world \<Rightarrow> string \<Rightarrow> (error + string) \<times> world" where
  \<comment> \<open>\<open>tempfile.mkdtemp(prefix=prefix)\<close>\<close>
  "mkdtemp w prefix = mkdtemp_try w prefix (names w)"

definition open_wb :: "world \<Rightarrow> string \<Rightarrow> (error + fspath) \<times> world" where
  \<comment> \<open>\<open>open(name, 'wb')\<close>: creates the file or empties it; the result stands for the open file\<close>
  "open_wb w s =
     (case resolve w s of
        Inl e \<Rightarrow> (Inl e, w)
      | Inr p \<Rightarrow>
          (case fs w p of
             Some Dir \<Rightarrow> (Inl IsADirectoryError, w)
           | _ \<Rightarrow> (Inr p, w\<lparr>fs := (fs w)(p \<mapsto> File [])\<rparr>)))"

definition write_file :: "world \<Rightarrow> fspath \<Rightarrow> byte list \<Rightarrow> world" where
  \<comment> \<open>\<open>f.write(data)\<close> on a file just opened with \<open>'wb'\<close>, and the close\<close>
  "write_file w p data = w\<lparr>fs := (fs w)(p \<mapsto> File data)\<rparr>"

definition read_file :: "world \<Rightarrow> string \<Rightarrow> error + byte list" where
  \<comment> \<open>\<open>open(name, 'rb').read()\<close>\<close>
  "read_file w s =
     (case resolve w s of
        Inl e \<Rightarrow> Inl e
      | Inr p \<Rightarrow>
          (case fs w p of
             None \<Rightarrow> Inl FileNotFoundError
           | Some Dir \<Rightarrow> Inl IsADirectoryError
           | Some (File b) \<Rightarrow> Inr b))"

definition rmtree :: "world \<Rightarrow> string \<Rightarrow> (error + unit) \<times> world" where
  \<comment> \<open>\<open>shutil.rmtree(name)\<close>: the directory and everything below it. The root directory is
      emptied but cannot be removed itself.\<close>
  "rmtree w s =
     (case resolve w s of
        Inl e \<Rightarrow> (Inl e, w)
      | Inr p \<Rightarrow>
          (case fs w p of
             None \<Rightarrow> (Inl FileNotFoundError, w)
           | Some (File b) \<Rightarrow> (Inl NotADirectoryError, w)
           | Some Dir \<Rightarrow>
               (if p = [] then (Inl OSError, w\<lparr>fs := (\<lambda>q. if q = [] then fs w q else None)\<rparr>)
                else (Inr (),
                      w\<lparr>fs := (\<lambda>q. if take (length p) q = p then None else fs w q)\<rparr>))))"

section \<open>\<open>AbstractFile\<close>\<close>

text \<open>
  The attributes of an instance. \<open>filepath_raw\<close> is the private \<open>__filepath\<close> the setter
  of the \<open>filepath\<close> property writes, \<open>ondisk\<close> the private \<open>__ondisk\<close>; \<open>checksums\<close> is
  a dict, kept in insertion order.
\<close>

record entity =
  filepath_raw :: string
  fileobj :: "fileobj option"
  path :: string
  name :: string
  ftype :: string
  parent :: "string option"
  ondisk :: "string option"
  checksums :: "(string \<times> string) list"

definition filepath :: "entity \<Rightarrow> string" where
  \<comment> \<open>the getter of the \<open>filepath\<close> property\<close>
  "filepath e = (case ondisk e of None \<Rightarrow> filepath_raw e | Some d \<Rightarrow> d)"

definition persist :: "bool \<Rightarrow> entity \<Rightarrow> world \<Rightarrow> (error + entity) \<times> world" where
  \<comment> \<open>\<open>inmemory\<close> is the value of the subclass's \<open>inmemory\<close> property\<close>
  "persist inmemory e0 w =
     (let e = e0\<lparr>ondisk := None\<rparr>
      in case fileobj e of
           None \<Rightarrow> (Inr e, w)
         | Some fo \<Rightarrow>
             (if inmemory then (Inr e, w)
              else (case mkdtemp w ''jsnoop.file.persist.'' of
                      (Inl err, w1) \<Rightarrow> (Inl err, w1)
                    | (Inr temp_dir, w1) \<Rightarrow>
                        (let temp_file = join temp_dir (filepath e)
                         in case makedirs w1 (dirname temp_file) of
                              (Inl err, w2) \<Rightarrow> (Inl err, w2)
                            | (Inr u, w2) \<Rightarrow>
                                (case seek0 fo of
                                   Inl err \<Rightarrow> (Inl err, w2)
                                 | Inr fo1 \<Rightarrow>
                                     (case open_wb w2 temp_file of
                                        (Inl err, w3) \<Rightarrow> (Inl err, w3)
                                      | (Inr f, w3) \<Rightarrow>
                                          (case read_all fo1 of
                                             Inl err \<Rightarrow> (Inl err, w3)
                                           | Inr (data, fo2) \<Rightarrow>
                                               (let w4 = write_file w3 f data
                                                in case seek0 fo2 of
                                                     Inl err \<Rightarrow> (Inl err, w4)
                                                   | Inr fo3 \<Rightarrow>
                                                       (Inr (e\<lparr>fileobj := Some fo3,
                                                               ondisk := Some temp_file\<rparr>),
                                                        w4)))))))))"

definition AbstractFile_del :: "entity \<Rightarrow> world \<Rightarrow> world" where
  \<comment> \<open>\<open>__del__\<close>: whatever \<open>rmtree\<close> raises is swallowed\<close>
  "AbstractFile_del e w =
     (case ondisk e of
        None \<Rightarrow> w
      | Some d \<Rightarrow> (if d = [] then w else snd (rmtree w (replace d (filepath_raw e) []))))"

datatype fileinput = FromPath string | FromObj fileobj

text \<open>
  \<open>hexdigest\<close> of \<open>pyrus.checksum\<close> is a library outside the repository, a parameter here:
  given the input (a path or the byte source), the algorithm and the files, it returns the
  digest or raises, and leaves the byte source in some state (its position).
\<close>

type_synonym hexdigest_fn = "fileinput \<Rightarrow> string \<Rightarrow> world \<Rightarrow> (error + string) \<times> fileinput"

fun fill_checksums ::
  "hexdigest_fn \<Rightarrow> world \<Rightarrow> string list \<Rightarrow> fileinput \<Rightarrow> (string \<times> string) list \<Rightarrow>
   error + (string \<times> string) list \<times> fileinput" where
  \<comment> \<open>\<open>for algorithm in required_checksums: self.checksums[algorithm] = hexdigest(...)\<close>\<close>
  "fill_checksums hexdigest w [] fileinput m = Inr (m, fileinput)"
| "fill_checksums hexdigest w (algorithm # algorithms) fileinput m =
     (case hexdigest fileinput algorithm w of
        (Inl err, fileinput') \<Rightarrow> Inl err
      | (Inr d, fileinput') \<Rightarrow>
          fill_checksums hexdigest w algorithms fileinput' (dict_set algorithm d m))"

definition checksum_input :: "entity \<Rightarrow> world \<Rightarrow> error + fileinput" where
  \<comment> \<open>the choice of \<open>fileinput\<close> in \<open>prepare_checksums\<close>; \<open>not self.fileobj\<close> holds for
      \<open>None\<close> and for every falsy object\<close>
  "checksum_input e w =
     (case fileobj e of
        None \<Rightarrow>
          (if exists w (filepath e) \<and> isfile w (filepath e) then Inr (FromPath (filepath e))
           else Inl AssertionError)
      | Some fo \<Rightarrow>
          (if truthy fo then Inr (FromObj fo)
           else if exists w (filepath e) \<and> isfile w (filepath e) then Inr (FromPath (filepath e))
           else Inl AssertionError))"

definition prepare_checksums :: "hexdigest_fn \<Rightarrow> entity \<Rightarrow> world \<Rightarrow> error + entity" where
  "prepare_checksums hexdigest e w =
     (case checksum_input e w of
        Inl err \<Rightarrow> Inl err
      | Inr fileinput \<Rightarrow>
          (case fill_checksums hexdigest w required_checksums fileinput [] of
             Inl err \<Rightarrow> Inl err
           | Inr (m, fileinput') \<Rightarrow>
               Inr (e\<lparr>checksums := m,
                      fileobj := (case fileinput' of
                                    FromObj fo' \<Rightarrow> (if fileobj e = None then None else Some fo')
                                  | FromPath s \<Rightarrow> fileobj e)\<rparr>)))"

definition new_entity :: "ctor_args \<Rightarrow> entity" where
  \<comment> \<open>the attribute assignments of \<open>AbstractFile.__init__\<close>, before \<open>self.persist()\<close>;
      \<open>__ondisk\<close> and \<open>checksums\<close> are not set yet\<close>
  "new_entity a =
     \<lparr>filepath_raw = arg_filepath a,
      fileobj = arg_fileobj a,
      path = dirname (lstrip_sep (replace (arg_filepath a) (arg_parent_path a) [])),
      name = basename (arg_filepath a),
      ftype = lower (snd (splitext (arg_filepath a))),
      parent = arg_parent_sha512 a,
      ondisk = None,
      checksums = []\<rparr>"

definition AbstractFile_init ::
  "hexdigest_fn \<Rightarrow> bool \<Rightarrow> ctor_args \<Rightarrow> world \<Rightarrow> (error + entity) \<times> world" where
  \<comment> \<open>\<open>AbstractFile.__init__\<close>, for a subclass whose \<open>inmemory\<close> property is \<open>inmemory\<close>\<close>
  "AbstractFile_init hexdigest inmemory a w =
     (case persist inmemory (new_entity a) w of
        (Inl err, w1) \<Rightarrow> (Inl err, w1)
      | (Inr e1, w1) \<Rightarrow>
          (case prepare_checksums hexdigest e1 w1 of
             Inl err \<Rightarrow> (Inl err, w1)
           | Inr e2 \<Rightarrow> (Inr e2, w1)))"

section \<open>The specification's wording\<close>

definition resolveKind :: "string list \<Rightarrow> string \<Rightarrow> string" where
  \<comment> \<open>The specification's \<open>resolveKind\<close>: the extension in lower case; the default kind when
      it is in the ignore set; otherwise the table's kind, or the default kind when the table
      has none.\<close>
  "resolveKind ignored extension =
     (let e = lower extension
      in if e \<in> set ignored then ''SimpleFile''
         else (case map_of MODULES e of
                 None \<Rightarrow> ''SimpleFile''
               | Some m \<Rightarrow> (case map_of CLASSES m of None \<Rightarrow> ''SimpleFile'' | Some k \<Rightarrow> k)))"

definition strip_prefix :: "string \<Rightarrow> string \<Rightarrow> string" where
  \<comment> \<open>\<open>s\<close> without \<open>pre\<close> at its start, when it starts with \<open>pre\<close>\<close>
  "strip_prefix pre s = (if take (length pre) s = pre then drop (length pre) s else s)"

definition relativePath :: "string \<Rightarrow> string \<Rightarrow> string" where
  \<comment> \<open>The specification's \<open>relativePath\<close>: the directory part of the file path, with the
      containing artifact's path prefix stripped and the leading separators removed.\<close>
  "relativePath file_path parent_prefix =
     dirname (lstrip_sep (strip_prefix parent_prefix file_path))"


section \<open>A sample process and sample collaborators\<close>

text \<open>
  A process at start-up, with a small file system, used to run the model on concrete inputs:
  \<open>/tmp\<close> is the temporary directory, \<open>/data\<close> the working directory and holds \<open>app.jar\<close>.
\<close>

definition sample_world :: world where
  "sample_world =
     \<lparr>IGNORED_EXTENSIONS = [],
      LOADED = {},
      fs = [[] \<mapsto> Dir, [''tmp''] \<mapsto> Dir, [''data''] \<mapsto> Dir,
            [''data'', ''app.jar''] \<mapsto> File [80, 75, 3, 4]],
      cwd = [''data''],
      tempdir = ''/tmp'',
      names = [''abcdefgh'', ''ijklmnop'']\<rparr>"

definition hex_byte :: "nat \<Rightarrow> string" where
  "hex_byte n = [''0123456789abcdef'' ! ((n div 16) mod 16), ''0123456789abcdef'' ! (n mod 16)]"

definition sample_digest :: "string \<Rightarrow> byte list \<Rightarrow> string" where
  \<comment> \<open>a stand-in for a hash: the byte sum and the length, in hexadecimal\<close>
  "sample_digest algorithm b = hex_byte (length algorithm) @ hex_byte (sum_list (map unat b)) @ hex_byte (length b)"

definition sample_hexdigest :: hexdigest_fn where
  \<comment> \<open>a stand-in checksum provider: it reads a path's file, or the whole byte source\<close>
  "sample_hexdigest fileinput algorithm w =
     (case fileinput of
        FromPath s \<Rightarrow>
          (case read_file w s of
             Inl e \<Rightarrow> (Inl e, fileinput)
           | Inr b \<Rightarrow> (Inr (sample_digest algorithm b), fileinput))
      | FromObj (RawBytes b) \<Rightarrow> (Inr (sample_digest algorithm b), fileinput)
      | FromObj (FileLike t c p) \<Rightarrow>
          (Inr (sample_digest algorithm c), FromObj (FileLike t c (length c)))
      | FromObj ClosedFile \<Rightarrow> (Inl ValueError, fileinput))"

definition sample_content :: "fileobj option \<Rightarrow> byte list" where
  "sample_content fo =
     (case fo of
        None \<Rightarrow> []
      | Some (RawBytes b) \<Rightarrow> b
      | Some (FileLike t c p) \<Rightarrow> c
      | Some ClosedFile \<Rightarrow> [])"

definition sample_args :: "string \<Rightarrow> byte list \<Rightarrow> ctor_args" where
  \<comment> \<open>a call with a path and an \<open>io.BytesIO\<close> of the given content, and the default parent\<close>
  "sample_args fp content =
     \<lparr>arg_filepath = fp, arg_fileobj = Some (FileLike True content 0),
      arg_parent_path = [], arg_parent_sha512 = None\<rparr>"

definition sample_call :: "string \<Rightarrow> fileobj option \<Rightarrow> string \<Rightarrow> ctor_args" where
  \<comment> \<open>a call with a path, any byte source and a parent path\<close>
  "sample_call fp fo pp =
     \<lparr>arg_filepath = fp, arg_fileobj = fo, arg_parent_path = pp, arg_parent_sha512 = None\<rparr>"

definition sample_init :: "string \<Rightarrow> ctor_args \<Rightarrow> world \<Rightarrow> (error + entity) \<times> world" where
  \<comment> \<open>Stand-ins for the handler classes: \<open>ArchiveFile\<close> needs on-disk backing and accepts
      only content that starts with the zip signature \<open>PK\<close>; the others work in memory.\<close>
  "sample_init klass a w =
     (if klass = ''ArchiveFile''
      then (if take 2 (sample_content (arg_fileobj a)) = [80, 75]
            then AbstractFile_init sample_hexdigest False a w
            else (Inl ValueError, w))
      else AbstractFile_init sample_hexdigest True a w)"

section \<open>Facts about the tables and the handler classes\<close>

lemma CLASSES_eq:
  "CLASSES = [(''archivefile'', ''ArchiveFile''), (''javaclass'', ''ClassFile''),
     (''manifest'', ''ManifestFile''), (''signature'', ''SignatureFile''),
     (''simplefile'', ''SimpleFile'')]"
  by (simp add: CLASSES_def dict_of_def)

lemma MODULES_eq:
  "MODULES = [(''.mf'', ''manifest''), (''.rsa'', ''signature''), (''.dsa'', ''signature''),
     (''.class'', ''javaclass''), (''.zip'', ''archivefile''), (''.gz'', ''archivefile''),
     (''.bz2'', ''archivefile''), (''.tar'', ''archivefile''), (''.jar'', ''archivefile''),
     (''.war'', ''archivefile''), (''.sar'', ''archivefile'')]"
  by (simp add: MODULES_def dict_of_def)

lemma MODULES_has_class:
  assumes "map_of MODULES e = Some m"
  shows "\<exists>k. map_of CLASSES m = Some k"
proof -
  from assms have "(e, m) \<in> set MODULES" by (rule map_of_SomeD)
  then have "m \<in> {''manifest'', ''signature'', ''javaclass'', ''archivefile''}"
    unfolding MODULES_eq by auto
  then show ?thesis unfolding CLASSES_eq by auto
qed

lemma lower_char_idem: "lower_char (lower_char c) = lower_char c"
proof -
  have "(of_char c :: nat) < 256" by simp
  then show ?thesis
    by (auto simp: lower_char_def Let_def)
qed

lemma lower_idem: "lower (lower s) = lower s"
  by (simp add: lower_def lower_char_idem)

lemma handler_module_has_class:
  "\<exists>k. map_of CLASSES (handler_module w f) = Some k"
proof (cases "is_ignored_extension w (lower (snd (splitext f)))")
  case True
  then show ?thesis by (simp add: handler_module_def DEFAULT_MODULE_def CLASSES_eq)
next
  case False
  show ?thesis
  proof (cases "map_of MODULES (lower (snd (splitext f)))")
    case None
    with False show ?thesis by (simp add: handler_module_def DEFAULT_MODULE_def CLASSES_eq)
  next
    case (Some m)
    with False MODULES_has_class [OF Some] show ?thesis by (simp add: handler_module_def)
  qed
qed

lemma handler_class_Some:
  "map_of CLASSES m = Some k \<Longrightarrow>
   handler_class w m = (Inr k, w\<lparr>LOADED := insert (MODULE_PREFIX @ ''.'' @ m @ ''.'' @ k) (LOADED w)\<rparr>)"
  by (simp add: handler_class_def Let_def insert_absorb)

lemma handler_class_archivefile:
  "fst (handler_class w ''archivefile'') = Inr ''ArchiveFile''"
  by (simp add: handler_class_Some CLASSES_eq)

lemma get_handler_resolveKind:
  "fst (get_handler w f) = Inr (resolveKind (IGNORED_EXTENSIONS w) (snd (splitext f)))"
proof -
  obtain k where k: "map_of CLASSES (handler_module w f) = Some k"
    using handler_module_has_class by blast
  have "resolveKind (IGNORED_EXTENSIONS w) (snd (splitext f)) = k"
    using k
    by (auto simp: resolveKind_def handler_module_def is_ignored_extension_def lower_idem
        Let_def DEFAULT_MODULE_def CLASSES_eq split: option.splits if_splits)
  then show ?thesis
    by (simp add: get_handler_def handler_class_Some [OF k])
qed

lemma forced_archive_eq:
  "forced_archive init a w = instantiate init ''ArchiveFile'' a (snd (handler_class w ''archivefile''))"
  by (simp add: forced_archive_def handler_class_Some CLASSES_eq)

lemma by_extension_eq:
  "by_extension init a w =
     instantiate init (resolveKind (IGNORED_EXTENSIONS w) (snd (splitext (arg_filepath a)))) a
       (snd (get_handler w (arg_filepath a)))"
  using get_handler_resolveKind [of w "arg_filepath a"]
  by (cases "get_handler w (arg_filepath a)") (auto simp: by_extension_def)


section \<open>Choosing the handler\<close>




text \<open>
  C2, as it is written, says that the fallback runs only for a failure of the container format
  and that any other failure of the forced attempt reaches the caller. The code tells the
  failures apart by class alone, and \<open>ValueError\<close> is also what a path with a NUL character
  and a closed byte source raise. For the path \<open>lib/\<close>NUL\<open>x.mf\<close> with the content of an
  archive (the same content is accepted under the name \<open>lib/x.mf\<close>), \<open>AbstractFile.__init__\<close>
  raises \<open>ValueError\<close> when \<open>persist\<close> opens the file; the forced attempt fails with it, and
  \<open>get_handler_obj\<close> returns a \<open>ManifestFile\<close>: the failure is masked by the fallback. With a
  closed byte source \<open>AbstractFile.__init__\<close> raises \<open>ValueError\<close> as well, at \<open>seek\<close>.
\<close>

theorem get_handler_obj_masks_path_error_counterexample:
  "fst (AbstractFile_init sample_hexdigest False
         (sample_args (''lib/'' @ CHR 0x00 # ''x.mf'') [80, 75, 3, 4]) sample_world) = Inl ValueError
   \<and> \<not> isl (fst (sample_init ''ArchiveFile'' (sample_args ''lib/x.mf'' [80, 75, 3, 4])
         (snd (handler_class sample_world ''archivefile''))))
   \<and> fst (sample_init ''ArchiveFile'' (sample_args (''lib/'' @ CHR 0x00 # ''x.mf'') [80, 75, 3, 4])
         (snd (handler_class sample_world ''archivefile''))) = Inl ValueError
   \<and> map_sum id fst (fst (get_handler_obj sample_init
         (sample_args (''lib/'' @ CHR 0x00 # ''x.mf'') [80, 75, 3, 4]) sample_world))
       = Inr ''ManifestFile''
   \<and> fst (AbstractFile_init sample_hexdigest False
         (sample_call ''lib/x.mf'' (Some ClosedFile) []) sample_world) = Inl ValueError"
  by code_simp

text \<open>
  C2, amended. The fallback to the extension runs exactly when the forced \<open>ArchiveFile\<close>
  construction raises \<open>ValueError\<close>, whatever made it raise: the class chosen from the
  extension is then constructed in the state the failed attempt left. An error of any other
  class is the result of \<open>get_handler_obj\<close>, with the state as the failed construction left
  it, and a successful construction is returned as it is.
\<close>

theorem get_handler_obj_fallback_only_on_ValueError:
  assumes "init ''ArchiveFile'' a (snd (handler_class w ''archivefile'')) = (r, w2)"
  shows "(r = Inl ValueError \<longrightarrow> get_handler_obj init a w = by_extension init a w2)
    \<and> (\<forall>e. r = Inl e \<and> e \<noteq> ValueError \<longrightarrow> get_handler_obj init a w = (Inl e, w2))
    \<and> (\<forall>obj. r = Inr obj \<longrightarrow> get_handler_obj init a w = (Inr (''ArchiveFile'', obj), w2))
    \<and> by_extension init a w2 =
        instantiate init (resolveKind (IGNORED_EXTENSIONS w2) (snd (splitext (arg_filepath a)))) a
          (snd (get_handler w2 (arg_filepath a)))"
  using assms by_extension_eq [of init a w2]
  by (auto simp: get_handler_obj_def forced_archive_eq instantiate_def)

theorem get_handler_obj_fallback_only_on_ValueError_witness:
  "map_sum id fst (fst (get_handler_obj sample_init (sample_args ''docs/notes.mf'' [104, 105]) sample_world))
     = Inr ''ManifestFile''
   \<and> fst (get_handler_obj sample_init (sample_args ''notes.zip'' [80, 75, 3, 4]) sample_world)
     = Inl FileExistsError
   \<and> map_sum id fst (fst (get_handler_obj sample_init (sample_args ''docs/notes.mf'' [80, 75, 3, 4]) sample_world))
     = Inr ''ArchiveFile''
   \<and> map_sum id fst (fst (get_handler_obj sample_init
         (sample_args (''lib/'' @ CHR 0x00 # ''x.mf'') [80, 75, 3, 4]) sample_world))
     = Inr ''ManifestFile''"
proof (intro conjI)
  let ?w1 = "snd (handler_class sample_world ''archivefile'')"
  let ?a = "sample_args ''docs/notes.mf'' [104, 105]"
  let ?w2 = "snd (sample_init ''ArchiveFile'' ?a ?w1)"
  have "fst (sample_init ''ArchiveFile'' ?a ?w1) = Inl ValueError"
    by code_simp
  then have eq: "sample_init ''ArchiveFile'' ?a ?w1 = (Inl ValueError, ?w2)"
    by (simp add: prod_eq_iff)
  have "map_sum id fst (fst (by_extension sample_init ?a ?w2)) = Inr ''ManifestFile''"
    by code_simp
  with get_handler_obj_fallback_only_on_ValueError
    [of sample_init ?a sample_world "Inl ValueError" ?w2, OF eq]
  show "map_sum id fst (fst (get_handler_obj sample_init ?a sample_world)) = Inr ''ManifestFile''"
    by simp
next
  let ?w1 = "snd (handler_class sample_world ''archivefile'')"
  let ?a = "sample_args ''notes.zip'' [80, 75, 3, 4]"
  let ?w2 = "snd (sample_init ''ArchiveFile'' ?a ?w1)"
  have "fst (sample_init ''ArchiveFile'' ?a ?w1) = Inl FileExistsError"
    by code_simp
  then have eq: "sample_init ''ArchiveFile'' ?a ?w1 = (Inl FileExistsError, ?w2)"
    by (simp add: prod_eq_iff)
  from get_handler_obj_fallback_only_on_ValueError
    [of sample_init ?a sample_world "Inl FileExistsError" ?w2, OF eq]
  show "fst (get_handler_obj sample_init ?a sample_world) = Inl FileExistsError"
    by simp
next
  let ?w1 = "snd (handler_class sample_world ''archivefile'')"
  let ?a = "sample_args ''docs/notes.mf'' [80, 75, 3, 4]"
  obtain r w2 where eq: "sample_init ''ArchiveFile'' ?a ?w1 = (r, w2)"
    by (cases "sample_init ''ArchiveFile'' ?a ?w1")
  have "\<not> isl (fst (sample_init ''ArchiveFile'' ?a ?w1))"
    by code_simp
  with eq obtain obj where "r = Inr obj"
    by (cases r) auto
  with get_handler_obj_fallback_only_on_ValueError [of sample_init ?a sample_world r w2, OF eq]
  show "map_sum id fst (fst (get_handler_obj sample_init ?a sample_world)) = Inr ''ArchiveFile''"
    by simp
next
  let ?w1 = "snd (handler_class sample_world ''archivefile'')"
  let ?a = "sample_args (''lib/'' @ CHR 0x00 # ''x.mf'') [80, 75, 3, 4]"
  let ?w2 = "snd (sample_init ''ArchiveFile'' ?a ?w1)"
  have "fst (sample_init ''ArchiveFile'' ?a ?w1) = Inl ValueError"
    by code_simp
  then have eq: "sample_init ''ArchiveFile'' ?a ?w1 = (Inl ValueError, ?w2)"
    by (simp add: prod_eq_iff)
  have b: "map_sum id fst (fst (by_extension sample_init ?a ?w2)) = Inr ''ManifestFile''"
    by code_simp
  from get_handler_obj_fallback_only_on_ValueError
    [of sample_init ?a sample_world "Inl ValueError" ?w2, OF eq]
  have "get_handler_obj sample_init ?a sample_world = by_extension sample_init ?a ?w2"
    by blast
  with b show "map_sum id fst (fst (get_handler_obj sample_init ?a sample_world)) = Inr ''ManifestFile''"
    by simp
qed

text \<open>
  C9. An input the \<open>ArchiveFile\<close> constructor accepts is returned as an \<open>ArchiveFile\<close> also when
  its extension is in the ignore list; the list only changes what \<open>get_handler\<close> answers (the
  default \<open>SimpleFile\<close>), which is consulted on the fallback path alone.
\<close>

theorem get_handler_obj_ignores_ignore_list:
  assumes "init ''ArchiveFile'' a (snd (handler_class w ''archivefile'')) = (Inr obj, w2)"
    and "is_ignored_extension w (snd (splitext (arg_filepath a)))"
  shows "get_handler_obj init a w = (Inr (''ArchiveFile'', obj), w2)
    \<and> fst (get_handler w (arg_filepath a)) = Inr ''SimpleFile''"
proof
  from assms(1) show "get_handler_obj init a w = (Inr (''ArchiveFile'', obj), w2)"
    by (simp add: get_handler_obj_def forced_archive_eq instantiate_def)
  from assms(2) show "fst (get_handler w (arg_filepath a)) = Inr ''SimpleFile''"
    by (simp add: get_handler_resolveKind resolveKind_def is_ignored_extension_def Let_def)
qed

theorem get_handler_obj_ignores_ignore_list_witness:
  "is_ignored_extension (sample_world\<lparr>IGNORED_EXTENSIONS := [''.zip'']\<rparr>) ''.zip''
   \<and> map_sum id fst (fst (get_handler_obj sample_init (sample_args ''lib/app.zip'' [80, 75, 3, 4])
         (sample_world\<lparr>IGNORED_EXTENSIONS := [''.zip'']\<rparr>))) = Inr ''ArchiveFile''
   \<and> fst (get_handler (sample_world\<lparr>IGNORED_EXTENSIONS := [''.zip'']\<rparr>) ''lib/app.zip'')
       = Inr ''SimpleFile''"
proof -
  let ?w = "sample_world\<lparr>IGNORED_EXTENSIONS := [''.zip'']\<rparr>"
  let ?w1 = "snd (handler_class ?w ''archivefile'')"
  let ?a = "sample_args ''lib/app.zip'' [80, 75, 3, 4]"
  obtain r w2 where eq: "sample_init ''ArchiveFile'' ?a ?w1 = (r, w2)"
    by (cases "sample_init ''ArchiveFile'' ?a ?w1")
  have "\<not> isl (fst (sample_init ''ArchiveFile'' ?a ?w1))"
    by code_simp
  with eq obtain obj where eq': "sample_init ''ArchiveFile'' ?a ?w1 = (Inr obj, w2)"
    by (cases r) auto
  have ign: "is_ignored_extension ?w (snd (splitext (arg_filepath ?a)))"
    by code_simp
  have ext: "snd (splitext ''lib/app.zip'') = ''.zip''" "arg_filepath ?a = ''lib/app.zip''"
    by code_simp+
  from get_handler_obj_ignores_ignore_list [of sample_init ?a ?w obj w2, OF eq' ign] ign
  show ?thesis
    by (simp add: ext)
qed

section \<open>The ignore list\<close>

lemma ignore_extensions_raises:
  "ignore_extensions w arg = (Inl UnboundLocalError, w)"
  by (simp add: ignore_extensions_def aug_add_local_def)

text \<open>
  C3. The claim is that after \<open>ignore_extensions(e)\<close> the extension \<open>e\<close> is ignored and resolves
  to the default handler. The code does not do that: from the start-up state,
  \<open>ignore_extensions('.mf')\<close> raises \<open>UnboundLocalError\<close>, \<open>.mf\<close> is still not ignored, and
  \<open>get_handler\<close> still answers \<open>ManifestFile\<close> for a \<open>.MF\<close> file.
\<close>

theorem ignore_extensions_not_visible:
  "fst (ignore_extensions sample_world (Str ''.mf'')) = Inl UnboundLocalError
   \<and> \<not> is_ignored_extension (snd (ignore_extensions sample_world (Str ''.mf''))) ''.mf''
   \<and> fst (get_handler (snd (ignore_extensions sample_world (Str ''.mf''))) ''META-INF/MANIFEST.MF'')
       = Inr ''ManifestFile''"
  by code_simp

text \<open>
  C4. The claim is that registering an extension that is already ignored raises no error. The
  code raises: with \<open>.zip\<close> in the ignore list, \<open>ignore_extensions('.zip')\<close> raises
  \<open>UnboundLocalError\<close>.
\<close>

theorem ignore_extensions_again_raises:
  "is_ignored_extension (sample_world\<lparr>IGNORED_EXTENSIONS := [''.zip'']\<rparr>) ''.zip''
   \<and> fst (ignore_extensions (sample_world\<lparr>IGNORED_EXTENSIONS := [''.zip'']\<rparr>) (Str ''.zip''))
       = Inl UnboundLocalError"
  by code_simp

text \<open>
  The other half of C4 holds: removing an extension that is not ignored changes nothing and
  raises nothing, and the known extensions do not depend on the state at all.
\<close>

lemma unignore_extensions_absent:
  "\<not> is_ignored_extension w e \<Longrightarrow> unignore_extensions w (Str e) = (Inr (), w)"
  by (simp add: unignore_extensions_def is_ignored_extension_def)

section \<open>Checksums\<close>





lemma prepare_checksums_Inr:
  assumes "prepare_checksums h e w = Inr e'"
  obtains i m i' where "checksum_input e w = Inr i"
    and "fill_checksums h w required_checksums i [] = Inr (m, i')"
    and "checksums e' = m"
    and "path e' = path e" and "name e' = name e" and "ondisk e' = ondisk e"
    and "filepath_raw e' = filepath_raw e"
  using assms
  by (auto simp: prepare_checksums_def split: sum.splits prod.splits)

lemma AbstractFile_init_Inr:
  assumes "AbstractFile_init h im a w = (Inr e, w')"
  obtains e1 where "persist im (new_entity a) w = (Inr e1, w')"
    and "prepare_checksums h e1 w' = Inr e"
  using assms
  by (auto simp: AbstractFile_init_def split: sum.splits prod.splits)






section \<open>Persistence\<close>

lemma persist_in_memory: "persist True e w = (Inr (e\<lparr>ondisk := None\<rparr>), w)"
  by (cases "fileobj e") (simp_all add: persist_def Let_def)

lemma persist_no_fileobj: "fileobj e = None \<Longrightarrow> persist im e w = (Inr (e\<lparr>ondisk := None\<rparr>), w)"
  by (simp add: persist_def Let_def)

lemma seek0_Inr: "seek0 fo = Inr fo' \<Longrightarrow> truthy fo' = truthy fo"
  by (cases fo) (auto simp: seek0_def truthy_def)

lemma read_all_Inr: "read_all fo = Inr (b, fo') \<Longrightarrow> truthy fo' = truthy fo"
  by (cases fo) (auto simp: read_all_def truthy_def)

lemma persist_materialized:
  assumes "persist False e w = (Inr e1, w1)" and "fileobj e = Some fo"
  obtains temp_dir w' u w2 fo1 f w3 data fo2 fo3 where
      "mkdtemp w ''jsnoop.file.persist.'' = (Inr temp_dir, w')"
      "makedirs w' (dirname (join temp_dir (filepath_raw e))) = (Inr u, w2)"
      "seek0 fo = Inr fo1"
      "open_wb w2 (join temp_dir (filepath_raw e)) = (Inr f, w3)"
      "read_all fo1 = Inr (data, fo2)"
      "seek0 fo2 = Inr fo3"
      "e1 = e\<lparr>fileobj := Some fo3, ondisk := Some (join temp_dir (filepath_raw e))\<rparr>"
      "w1 = write_file w3 f data"
  using assms
  by (auto simp: persist_def Let_def filepath_def split: prod.splits sum.splits)

lemma persist_Inr:
  assumes "persist im e w = (Inr e1, w1)"
  shows "filepath_raw e1 = filepath_raw e \<and> path e1 = path e \<and> name e1 = name e
     \<and> ftype e1 = ftype e \<and> parent e1 = parent e
     \<and> (case fileobj e of None \<Rightarrow> fileobj e1 = None \<and> ondisk e1 = None
         | Some fo \<Rightarrow> (\<exists>fo1. fileobj e1 = Some fo1 \<and> truthy fo1 = truthy fo)
             \<and> (if im then ondisk e1 = None else ondisk e1 \<noteq> None))"
proof (cases "fileobj e")
  case None
  with assms show ?thesis by (auto simp: persist_no_fileobj)
next
  case (Some fo)
  show ?thesis
  proof (cases im)
    case True
    with assms Some show ?thesis by (auto simp: persist_in_memory)
  next
    case False
    with assms have p: "persist False e w = (Inr e1, w1)" by simp
    from p Some show ?thesis
    proof (rule persist_materialized)
      fix temp_dir fo1 data fo2 fo3
      assume "seek0 fo = Inr fo1" "read_all fo1 = Inr (data, fo2)" "seek0 fo2 = Inr fo3"
        and e1: "e1 = e\<lparr>fileobj := Some fo3, ondisk := Some (join temp_dir (filepath_raw e))\<rparr>"
      then have "truthy fo3 = truthy fo"
        by (simp add: seek0_Inr read_all_Inr)
      with e1 Some False show ?thesis by simp
    qed
  qed
qed

lemma walk_update:
  "walk f cur cs = Inr p \<Longrightarrow> f p \<noteq> Some Dir \<Longrightarrow> walk (f(p \<mapsto> v)) cur cs = Inr p"
proof (induction cs arbitrary: cur)
  case Nil
  then show ?case by simp
next
  case (Cons c cs)
  from Cons.prems(1) have dir: "f cur = Some Dir"
    by (auto split: option.splits node.splits)
  with Cons.prems(2) have "cur \<noteq> p" by auto
  with dir have "(f(p \<mapsto> v)) cur = Some Dir" by simp
  with Cons.prems dir Cons.IH show ?case
    by (auto split: if_splits)
qed

lemma open_wb_Inr:
  assumes "open_wb w s = (Inr f, w3)"
  shows "resolve w s = Inr f \<and> fs w f \<noteq> Some Dir \<and> w3 = w\<lparr>fs := (fs w)(f \<mapsto> File [])\<rparr>"
  using assms
  by (auto simp: open_wb_def split: sum.splits option.splits node.splits)

lemma persist_roundtrip:
  assumes "persist False e w = (Inr e1, w1)" and "fileobj e = Some (FileLike t c p)"
  shows "read_file w1 (filepath e1) = Inr c \<and> fileobj e1 = Some (FileLike t c 0)
    \<and> path e1 = path e \<and> name e1 = name e"
  using assms
proof (rule persist_materialized)
  fix temp_dir w' u w2 fo1 f w3 data fo2 fo3
  let ?temp_file = "join temp_dir (filepath_raw e)"
  assume s1: "seek0 (FileLike t c p) = Inr fo1"
    and o: "open_wb w2 ?temp_file = (Inr f, w3)"
    and r: "read_all fo1 = Inr (data, fo2)"
    and s2: "seek0 fo2 = Inr fo3"
    and e1: "e1 = e\<lparr>fileobj := Some fo3, ondisk := Some ?temp_file\<rparr>"
    and w1: "w1 = write_file w3 f data"
  from s1 r s2 have d: "data = c" "fo3 = FileLike t c 0"
    by (auto simp: seek0_def read_all_def)
  from open_wb_Inr [OF o] have res: "resolve w2 ?temp_file = Inr f"
    and nd: "fs w2 f \<noteq> Some Dir" and w3: "w3 = w2\<lparr>fs := (fs w2)(f \<mapsto> File [])\<rparr>"
    by simp_all
  from w1 w3 have fs1: "fs w1 = (fs w2)(f \<mapsto> File data)" and cwd1: "cwd w1 = cwd w2"
    by (simp_all add: write_file_def)
  from res have ne: "?temp_file \<noteq> []" and nul: "CHR 0x00 \<notin> set ?temp_file"
    and walk2: "walk (fs w2) (if hd ?temp_file = sep then [] else cwd w2) (split_on sep ?temp_file) = Inr f"
    by (auto simp: resolve_def split: if_splits)
  from walk_update [OF walk2 nd, of "File data"] have "resolve w1 ?temp_file = Inr f"
    using ne nul by (simp add: resolve_def fs1 cwd1 split: if_splits)
  then have "read_file w1 ?temp_file = Inr data"
    by (simp add: read_file_def fs1)
  with d e1 show ?thesis
    by (simp add: filepath_def)
qed

text \<open>
  So whenever \<open>persist\<close> returns for a file-like byte source, the file at the effective path
  holds the whole content and the reported path and name are untouched. It does not always
  return, and the effective path is not always inside the transient directory:
\<close>

text \<open>
  C6. The claim is that \<open>persist\<close> writes the byte source to a file inside a fresh transient
  directory. For a path with no directory part (\<open>a.bin\<close>) the code creates the transient
  directory and then raises \<open>FileExistsError\<close>, because \<open>makedirs\<close> is called on that very
  directory; nothing is written and the directory stays. For an absolute path
  (\<open>/data/new/a.bin\<close>) \<open>join\<close> drops the transient directory: the content is written at the
  absolute path itself, which becomes the effective path, and the transient directory stays
  empty.
\<close>

theorem persist_outside_transient_directory:
  "(case persist False (new_entity (sample_args ''a.bin'' [1, 2, 3])) sample_world of
      (r, w) \<Rightarrow> r = Inl FileExistsError
        \<and> fs w [''tmp'', ''jsnoop.file.persist.abcdefgh''] = Some Dir
        \<and> \<not> exists w ''/tmp/jsnoop.file.persist.abcdefgh/a.bin'')
   \<and> (case persist False (new_entity (sample_args ''/data/new/a.bin'' [1, 2, 3])) sample_world of
      (r, w) \<Rightarrow> map_sum id filepath r = Inr ''/data/new/a.bin''
        \<and> read_file w ''/data/new/a.bin'' = Inr [1, 2, 3]
        \<and> fs w [''tmp'', ''jsnoop.file.persist.abcdefgh''] = Some Dir)"
  by code_simp

text \<open>
  A path with a directory part (\<open>lib/a.bin\<close>) is persisted as the claim says, and \<open>__del__\<close>
  then removes the transient directory and nothing else.
\<close>

lemma persist_example:
  "(case persist False (new_entity (sample_args ''lib/a.bin'' [1, 2, 3])) sample_world of
      (r, w) \<Rightarrow> (case r of Inl err \<Rightarrow> False
         | Inr e \<Rightarrow> filepath e = ''/tmp/jsnoop.file.persist.abcdefgh/lib/a.bin''
             \<and> path e = ''lib'' \<and> name e = ''a.bin''
             \<and> fs sample_world [''tmp'', ''jsnoop.file.persist.abcdefgh''] = None
             \<and> read_file w (filepath e) = Inr [1, 2, 3]
             \<and> fs (AbstractFile_del e w) [''tmp'', ''jsnoop.file.persist.abcdefgh''] = None
             \<and> read_file (AbstractFile_del e w) (filepath e) = Inl FileNotFoundError
             \<and> read_file (AbstractFile_del e w) ''/data/app.jar'' = Inr [80, 75, 3, 4]))"
  by code_simp

section \<open>Release\<close>

lemma AbstractFile_del_not_materialized: "ondisk e = None \<Longrightarrow> AbstractFile_del e w = w"
  by (simp add: AbstractFile_del_def)

text \<open>
  C8. The claim is that the transient directory an instance materialized is removed when the
  instance's lifetime ends. \<open>__del__\<close> computes the directory by deleting every occurrence of
  the file path from the effective path. For the path \<open>p/j\<close> under \<open>/tmp\<close> the first occurrence
  lies in \<open>/tmp/jsnoop...\<close> itself: \<open>rmtree\<close> is called on \<open>/tmsnoop.file.persist.abcdefgh/\<close>,
  raises, the error is swallowed, and the transient directory and its file stay.
\<close>

theorem del_leaves_transient_directory:
  "(case persist False (new_entity (sample_args ''p/j'' [1, 2, 3])) sample_world of
      (r, w) \<Rightarrow> (case r of Inl err \<Rightarrow> False
         | Inr e \<Rightarrow> ondisk e = Some ''/tmp/jsnoop.file.persist.abcdefgh/p/j''
             \<and> replace ''/tmp/jsnoop.file.persist.abcdefgh/p/j'' (filepath_raw e) []
                 = ''/tmsnoop.file.persist.abcdefgh/''
             \<and> fs (AbstractFile_del e w) [''tmp'', ''jsnoop.file.persist.abcdefgh''] = Some Dir
             \<and> read_file (AbstractFile_del e w) ''/tmp/jsnoop.file.persist.abcdefgh/p/j''
                 = Inr [1, 2, 3]))"
  by code_simp

section \<open>The reported path\<close>

lemma replace_empty: "replace s [] [] = s"
  by (induction s) (simp_all add: replace.simps)

lemma AbstractFile_init_path_name:
  assumes "AbstractFile_init h im a w = (Inr e, w')"
  shows "path e = dirname (lstrip_sep (replace (arg_filepath a) (arg_parent_path a) []))
    \<and> name e = basename (arg_filepath a)"
proof -
  from assms obtain e1 where p: "persist im (new_entity a) w = (Inr e1, w')"
    and c: "prepare_checksums h e1 w' = Inr e"
    by (rule AbstractFile_init_Inr)
  from c have "path e = path e1" "name e = name e1"
    by (auto elim: prepare_checksums_Inr)
  with persist_Inr [OF p] show ?thesis
    by (simp add: new_entity_def)
qed

lemma path_default_parent:
  "arg_parent_path a = [] \<Longrightarrow> path (new_entity a) = relativePath (arg_filepath a) []"
  by (simp add: new_entity_def relativePath_def strip_prefix_def replace_empty)

text \<open>
  C7. The claim is that the reported path is the directory part of the file path with the
  parent's path prefix stripped. The code deletes every occurrence of the parent path, not
  only the prefix: for \<open>app.jar/lib/app.jar/x.txt\<close> inside \<open>app.jar\<close> it reports \<open>lib\<close>, where
  the claim gives \<open>lib/app.jar\<close>. The name is the base name, and both are computed from the
  two strings alone (\<open>AbstractFile_init_path_name\<close>).
\<close>

theorem reported_path_removes_every_occurrence:
  "map_sum id path (fst (AbstractFile_init sample_hexdigest True
       (sample_call ''app.jar/lib/app.jar/x.txt'' (Some (FileLike True [104, 105] 0)) ''app.jar'')
       sample_world)) = Inr ''lib''
   \<and> relativePath ''app.jar/lib/app.jar/x.txt'' ''app.jar'' = ''lib/app.jar''"
  by code_simp

section \<open>A byte source that is false\<close>




end
